theory Spec2Isabelle
  imports Main
begin

section \<open>Values, configuration and provider shapes\<close>

text \<open>
  The Google Pay flow of \<^verbatim>\<open>features/Billing/Providers/GooglePay.ts\<close> is a sequence of
  awaited calls to three collaborators (the Braintree SDK, the Google Pay client and the
  account API), wrapped in \<^verbatim>\<open>try\<close>/\<^verbatim>\<open>catch\<close> blocks. Each awaited call either resolves
  with a value or rejects with a thrown value, and everything observable (calls made,
  cache invalidations, callbacks invoked, exceptions reported) is recorded in a trace.
\<close>

text \<open>
  A thrown or rejected JavaScript value, as far as the code inspects it: a string
  primitive, an object with an optional string property \<^verbatim>\<open>statusCode\<close>, or
  \<^verbatim>\<open>undefined\<close>/\<^verbatim>\<open>null\<close>. \<open>TypeError\<close> is the error the runtime raises when a
  property of \<^verbatim>\<open>undefined\<close> is read.
\<close>

datatype js_value =
    JSString string
  | JSObject "string option"
  | JSUndefined
  | TypeError

text \<open>
  The property access \<^verbatim>\<open>error.statusCode\<close>: it raises on \<^verbatim>\<open>undefined\<close>, and is
  \<^verbatim>\<open>undefined\<close> (here \<open>None\<close>) on a string primitive and on an object without the
  property.
\<close>

fun statusCode :: "js_value \<Rightarrow> js_value + string option" where
  "statusCode (JSString s) = Inr None"
| "statusCode (JSObject sc) = Inr sc"
| "statusCode JSUndefined = Inl TypeError"
| "statusCode TypeError = Inr None"

text \<open>
  The constants imported from \<^verbatim>\<open>src/constants\<close>, \<^verbatim>\<open>src/queries/accountBilling\<close> and
  \<^verbatim>\<open>src/queries/accountPayment\<close> are parameters of the model: the two Google Pay
  settings are environment values (a string, or undefined), the two query keys are strings.
\<close>

record config =
  GPAY_MERCHANT_ID :: "string option"
  GPAY_CLIENT_ENV :: "string option"
  accountBillingKey :: string
  accountPaymentKey :: string

text \<open>\<^verbatim>\<open>Boolean(x)\<close> on a string or undefined: true for a non-empty string only.\<close>

definition Boolean :: "string option \<Rightarrow> bool" where
  "Boolean x = (case x of None \<Rightarrow> False | Some s \<Rightarrow> s \<noteq> [])"

record merchant_info =
  merchantId :: string
  merchantName :: string

text \<open>\<^verbatim>\<open>merchantId: GPAY_MERCHANT_ID || ''\<close>\<close>

definition merchantInfo :: "config \<Rightarrow> merchant_info" where
  "merchantInfo cfg =
     \<lparr> merchantId = (if Boolean (GPAY_MERCHANT_ID cfg) then the (GPAY_MERCHANT_ID cfg) else []),
       merchantName = ''Linode'' \<rparr>"

record transaction_info =
  totalPrice :: "string option"
  totalPriceStatus :: string
  currencyCode :: string
  countryCode :: "string option"

datatype payment_data = PaymentData string

record payment_authorization_result =
  transactionState :: string

record payment_data_request_overrides =
  ov_merchantInfo :: merchant_info
  ov_transactionInfo :: transaction_info
  callbackIntents :: "string list"

record payment_data_request =
  allowedPaymentMethods :: "string list"

record tokenize_payload =
  nonce :: string

text \<open>The Braintree Google Pay instance: an object with the two methods the flow calls.\<close>

record google_payment =
  createPaymentDataRequest :: "payment_data_request_overrides \<Rightarrow> js_value + payment_data_request"
  parseResponse :: "payment_data \<Rightarrow> js_value + tokenize_payload"

datatype braintree_client = BraintreeClient string

record google_payment_options =
  client :: braintree_client
  googlePayVersion :: nat
  googleMerchantId :: "string option"

record is_ready_to_pay_request =
  apiVersion :: nat
  apiVersionMinor :: nat
  rq_allowedPaymentMethods :: "string list"

text \<open>
  The Google Pay client (\<^verbatim>\<open>google.payments.api.PaymentsClient\<close>) resolves
  \<^verbatim>\<open>isReadyToPay\<close> with a response object \<^verbatim>\<open>{result: boolean}\<close>, not with a bare
  boolean: whether the device is ready is the field \<^verbatim>\<open>result\<close>.
\<close>

record is_ready_to_pay_response =
  result :: bool

text \<open>
  The truthiness that \<^verbatim>\<open>!x\<close> tests, on a response object: an object is truthy
  whatever its fields hold.
\<close>

definition truthy :: "is_ready_to_pay_response \<Rightarrow> bool" where
  "truthy response = True"

record payments_client =
  isReadyToPay :: "is_ready_to_pay_request \<Rightarrow> js_value + is_ready_to_pay_response"
  loadPaymentData :: "payment_data_request \<Rightarrow> js_value + payment_data"

record payment_options =
  environment :: "string option"
  po_merchantInfo :: merchant_info
  paymentDataCallbacks :: "payment_data \<Rightarrow> js_value + payment_authorization_result"

record api_warning =
  title :: string
  detail :: string

record payment_response =
  warnings :: "api_warning list option"

record payment_request =
  pr_nonce :: string
  usd :: "string option"

record payment_method_request =
  pm_type :: string
  pm_nonce :: string
  is_default :: bool

text \<open>The collaborators outside the module, each a function of the arguments it is called with.\<close>

record world =
  braintree_client_create :: "string \<Rightarrow> js_value + braintree_client"
  braintree_googlePayment_create :: "google_payment_options \<Rightarrow> js_value + google_payment"
  PaymentsClient :: "payment_options \<Rightarrow> payments_client"
  makePayment :: "payment_request \<Rightarrow> js_value + payment_response"
  addPaymentMethod :: "payment_method_request \<Rightarrow> js_value + unit"

datatype VariantType =
  Variant_default | Variant_error | Variant_success | Variant_warning | Variant_info

datatype action = one_time_payment | add_recurring_payment

section \<open>Traces\<close>

datatype event =
    ClientCreate string
  | GooglePaymentCreate braintree_client nat "string option"
  | CreatePaymentDataRequest payment_data_request_overrides
  | NewPaymentsClient "string option" merchant_info
  | IsReadyToPay is_ready_to_pay_request
  | LoadPaymentData payment_data_request
  | ParseResponse payment_data
  | MakePayment payment_request
  | AddPaymentMethod payment_method_request
  | InvalidateQueries string
  | SetMessage js_value VariantType "api_warning list option"
  | SetProcessing bool
  | ReportException js_value string

type_synonym 'a io = "(js_value + 'a) \<times> event list"

text \<open>An awaited call to a collaborator: the call is recorded, its outcome is the result.\<close>

definition call :: "event \<Rightarrow> js_value + 'a \<Rightarrow> 'a io" where
  "call ev outcome = (outcome, [ev])"

text \<open>A call that returns nothing and does not throw (callbacks, reporting, invalidation).\<close>

definition effect :: "event \<Rightarrow> unit io" where
  "effect ev = (Inr (), [ev])"

definition resolve :: "'a \<Rightarrow> 'a io" where
  "resolve v = (Inr v, [])"

definition reject :: "js_value \<Rightarrow> 'a io" where
  "reject e = (Inl e, [])"

text \<open>Sequencing: the rest runs only if the first part did not throw.\<close>

definition andThen :: "'a io \<Rightarrow> ('a \<Rightarrow> 'b io) \<Rightarrow> 'b io" where
  "andThen m f =
     (case m of
        (Inl e, tr) \<Rightarrow> (Inl e, tr)
      | (Inr v, tr) \<Rightarrow> (case f v of (r, tr') \<Rightarrow> (r, tr @ tr')))"

text \<open>\<^verbatim>\<open>try { m } catch (error) { h error }\<close>\<close>

definition tryCatch :: "'a io \<Rightarrow> (js_value \<Rightarrow> 'a io) \<Rightarrow> 'a io" where
  "tryCatch m h =
     (case m of
        (Inl e, tr) \<Rightarrow> (case h e of (r, tr') \<Rightarrow> (r, tr @ tr'))
      | (Inr v, tr) \<Rightarrow> (Inr v, tr))"

section \<open>The module\<close>

text \<open>The module-level slot \<^verbatim>\<open>let googlePaymentInstance: GooglePayment\<close>, undefined at load.\<close>

record module_state =
  googlePaymentInstance :: "google_payment option"

definition initial_state :: module_state where
  "initial_state = \<lparr> googlePaymentInstance = None \<rparr>"

definition onPaymentAuthorized :: "payment_data \<Rightarrow> js_value + payment_authorization_result" where
  "onPaymentAuthorized paymentData = Inr \<lparr> transactionState = ''SUCCESS'' \<rparr>"

record init_result =
  error :: bool

text \<open>
  \<^verbatim>\<open>initGooglePaymentInstance\<close>: the slot is assigned only when both creations resolve;
  the \<^verbatim>\<open>catch\<close> reports and returns, and touches nothing else.
\<close>

definition initGooglePaymentInstance ::
  "config \<Rightarrow> world \<Rightarrow> string \<Rightarrow> module_state \<Rightarrow> (init_result \<times> module_state) \<times> event list" where
  "initGooglePaymentInstance cfg w client_token s =
     (case braintree_client_create w client_token of
        Inl e \<Rightarrow>
          ((\<lparr> error = True \<rparr>, s),
           [ClientCreate client_token,
            ReportException e ''Error initializing Google Pay.''])
      | Inr braintreeClientToken \<Rightarrow>
          (case braintree_googlePayment_create w
                  \<lparr> client = braintreeClientToken, googlePayVersion = 2,
                    googleMerchantId = GPAY_MERCHANT_ID cfg \<rparr> of
             Inl e \<Rightarrow>
               ((\<lparr> error = True \<rparr>, s),
                [ClientCreate client_token,
                 GooglePaymentCreate braintreeClientToken 2 (GPAY_MERCHANT_ID cfg),
                 ReportException e ''Error initializing Google Pay.''])
           | Inr g \<Rightarrow>
               ((\<lparr> error = False \<rparr>, s\<lparr> googlePaymentInstance := Some g \<rparr>),
                [ClientCreate client_token,
                 GooglePaymentCreate braintreeClientToken 2 (GPAY_MERCHANT_ID cfg)])))"

definition requestOverrides :: "config \<Rightarrow> transaction_info \<Rightarrow> payment_data_request_overrides" where
  "requestOverrides cfg transactionInfo =
     \<lparr> ov_merchantInfo = merchantInfo cfg, ov_transactionInfo = transactionInfo,
       callbackIntents = [''PAYMENT_AUTHORIZATION''] \<rparr>"

definition googlePayClient :: "config \<Rightarrow> world \<Rightarrow> payments_client" where
  "googlePayClient cfg w =
     PaymentsClient w
       \<lparr> environment = GPAY_CLIENT_ENV cfg, po_merchantInfo = merchantInfo cfg,
         paymentDataCallbacks = onPaymentAuthorized \<rparr>"

definition readyRequest :: "payment_data_request \<Rightarrow> is_ready_to_pay_request" where
  "readyRequest paymentDataRequest =
     \<lparr> apiVersion = 2, apiVersionMinor = 0,
       rq_allowedPaymentMethods = allowedPaymentMethods paymentDataRequest \<rparr>"

text \<open>Lines 95 to 98: the nonce handed on, given the nonce parsed from the response.\<close>

definition selectNonce :: "config \<Rightarrow> string \<Rightarrow> string" where
  "selectNonce cfg realNonce =
     (if Boolean (GPAY_MERCHANT_ID cfg) \<and> GPAY_CLIENT_ENV cfg = Some ''PRODUCTION''
      then realNonce else ''fake-android-pay-nonce'')"

text \<open>
  \<^verbatim>\<open>tokenizePaymentDataRequest\<close>. Only the request construction sits in a
  \<^verbatim>\<open>try\<close>: its failure (also the \<open>TypeError\<close> of calling a method of an unset
  instance) is reported and replaced by a string. A rejection of the readiness check, of
  the payment sheet or of the parser leaves the function as it is. Line 83 negates the
  awaited readiness response itself, not its \<^verbatim>\<open>result\<close>.
\<close>

definition tokenizePaymentDataRequest ::
  "config \<Rightarrow> world \<Rightarrow> module_state \<Rightarrow> transaction_info \<Rightarrow> string io" where
  "tokenizePaymentDataRequest cfg w s transactionInfo =
     andThen
       (tryCatch
          (case googlePaymentInstance s of
             None \<Rightarrow> reject TypeError
           | Some g \<Rightarrow>
               call (CreatePaymentDataRequest (requestOverrides cfg transactionInfo))
                    (createPaymentDataRequest g (requestOverrides cfg transactionInfo)))
          (\<lambda>err. andThen (effect (ReportException err ''Unable to open Google Pay.''))
                    (\<lambda>_. reject (JSString ''Unable to open Google Pay.''))))
       (\<lambda>paymentDataRequest.
          andThen (effect (NewPaymentsClient (GPAY_CLIENT_ENV cfg) (merchantInfo cfg)))
          (\<lambda>_.
          andThen (call (IsReadyToPay (readyRequest paymentDataRequest))
                        (isReadyToPay (googlePayClient cfg w) (readyRequest paymentDataRequest)))
          (\<lambda>isReady.
            if \<not> truthy isReady
            then reject (JSString ''Your device does not support Google Pay.'')
            else
              andThen (call (LoadPaymentData paymentDataRequest)
                            (loadPaymentData (googlePayClient cfg w) paymentDataRequest))
              (\<lambda>paymentData.
              andThen (case googlePaymentInstance s of
                         None \<Rightarrow> reject TypeError
                       | Some g \<Rightarrow> call (ParseResponse paymentData) (parseResponse g paymentData))
              (\<lambda>payload. resolve (selectNonce cfg (nonce payload)))))))"

text \<open>The template literal prints an absent \<^verbatim>\<open>totalPrice\<close> as \<^verbatim>\<open>undefined\<close>.\<close>

definition template :: "string option \<Rightarrow> string" where
  "template x = (case x of None \<Rightarrow> ''undefined'' | Some s \<Rightarrow> s)"

definition makeOneTimePayment :: "config \<Rightarrow> world \<Rightarrow> transaction_info \<Rightarrow> string \<Rightarrow> unit io" where
  "makeOneTimePayment cfg w transactionInfo n =
     tryCatch
       (andThen (call (MakePayment \<lparr> pr_nonce = n, usd = totalPrice transactionInfo \<rparr>)
                      (makePayment w \<lparr> pr_nonce = n, usd = totalPrice transactionInfo \<rparr>))
        (\<lambda>response.
        andThen (effect (InvalidateQueries (accountBillingKey cfg @ ''-payments'')))
        (\<lambda>_.
        effect (SetMessage
                  (JSString (''Payment for $'' @ template (totalPrice transactionInfo)
                             @ '' successfully submitted with Google Pay''))
                  Variant_success (warnings response)))))
       (\<lambda>err.
        andThen (effect (ReportException err ''Unable to complete Google Pay payment''))
        (\<lambda>_. effect (SetMessage (JSString ''Unable to complete Google Pay payment'')
                        Variant_error None)))"

definition addRecurringPayment :: "config \<Rightarrow> world \<Rightarrow> string \<Rightarrow> unit io" where
  "addRecurringPayment cfg w n =
     tryCatch
       (andThen (call (AddPaymentMethod
                         \<lparr> pm_type = ''payment_method_nonce'', pm_nonce = n, is_default = True \<rparr>)
                      (addPaymentMethod w
                         \<lparr> pm_type = ''payment_method_nonce'', pm_nonce = n, is_default = True \<rparr>))
        (\<lambda>_.
        andThen (effect (InvalidateQueries (accountPaymentKey cfg @ ''-all'')))
        (\<lambda>_.
        effect (SetMessage (JSString ''Successfully added Google Pay'') Variant_success None))))
       (\<lambda>err.
        andThen (effect (ReportException err ''Unable to add payment method''))
        (\<lambda>_. effect (SetMessage (JSString ''Unable to add payment method'') Variant_error None)))"

text \<open>
  \<^verbatim>\<open>gPay\<close>. The two callbacks \<^verbatim>\<open>setMessage\<close> and \<^verbatim>\<open>setProcessing\<close> are recorded
  in the trace. The \<^verbatim>\<open>catch\<close> reads \<^verbatim>\<open>error.statusCode\<close>, which itself raises when
  the rejected value is \<^verbatim>\<open>undefined\<close>.
\<close>

definition gPay ::
  "config \<Rightarrow> world \<Rightarrow> module_state \<Rightarrow> action \<Rightarrow> transaction_info \<Rightarrow> unit io" where
  "gPay cfg w s act transactionInfo =
     tryCatch
       (andThen (tokenizePaymentDataRequest cfg w s transactionInfo)
        (\<lambda>n.
        andThen (effect (SetProcessing True))
        (\<lambda>_.
        andThen (if act = one_time_payment then makeOneTimePayment cfg w transactionInfo n
                 else addRecurringPayment cfg w n)
        (\<lambda>_. effect (SetProcessing False)))))
       (\<lambda>err.
        case statusCode err of
          Inl raised \<Rightarrow> reject raised
        | Inr sc \<Rightarrow>
            if sc = Some ''CANCELED'' then resolve ()
            else effect (SetMessage err Variant_error None))"

text \<open>The branch of \<^verbatim>\<open>gPay\<close> on the action, named for the lemmas below.\<close>

definition settle :: "config \<Rightarrow> world \<Rightarrow> action \<Rightarrow> transaction_info \<Rightarrow> string \<Rightarrow> unit io" where
  "settle cfg w act ti n =
     (if act = one_time_payment then makeOneTimePayment cfg w ti n
      else addRecurringPayment cfg w n)"

section \<open>Reading traces\<close>

fun is_setMessage :: "event \<Rightarrow> bool" where
  "is_setMessage (SetMessage m v ws) = True"
| "is_setMessage _ = False"

fun is_setProcessing :: "event \<Rightarrow> bool" where
  "is_setProcessing (SetProcessing b) = True"
| "is_setProcessing _ = False"

fun is_invalidate :: "event \<Rightarrow> bool" where
  "is_invalidate (InvalidateQueries k) = True"
| "is_invalidate _ = False"

text \<open>The two backend settlement calls: the charge and the payment-method registration.\<close>

fun is_settlement :: "event \<Rightarrow> bool" where
  "is_settlement (MakePayment rq) = True"
| "is_settlement (AddPaymentMethod rq) = True"
| "is_settlement _ = False"

text \<open>The events tokenization can produce: provider calls and exception reports.\<close>

fun from_tokenization :: "event \<Rightarrow> bool" where
  "from_tokenization (CreatePaymentDataRequest ov) = True"
| "from_tokenization (NewPaymentsClient env mi) = True"
| "from_tokenization (IsReadyToPay rq) = True"
| "from_tokenization (LoadPaymentData rq) = True"
| "from_tokenization (ParseResponse pd) = True"
| "from_tokenization (ReportException e msg) = True"
| "from_tokenization _ = False"

section \<open>A concrete environment\<close>

text \<open>
  A provider whose instance accepts every request and answers payment data \<open>t\<close> with the
  nonce \<^verbatim>\<open>nonce-t\<close>, whose client creation refuses the token \<^verbatim>\<open>expired\<close>, whose
  instance creation refuses the client of the token \<^verbatim>\<open>no-google-pay\<close>, and whose
  readiness check, payment sheet, charge and registration have the given outcomes.
\<close>

fun example_nonce :: "payment_data \<Rightarrow> string" where
  "example_nonce (PaymentData t) = ''nonce-'' @ t"

definition example_instance :: google_payment where
  "example_instance =
     \<lparr> createPaymentDataRequest = (\<lambda>ov. Inr \<lparr> allowedPaymentMethods = [''CARD''] \<rparr>),
       parseResponse = (\<lambda>pd. Inr \<lparr> nonce = example_nonce pd \<rparr>) \<rparr>"

definition example_world ::
  "(js_value + is_ready_to_pay_response) \<Rightarrow> (js_value + payment_data) \<Rightarrow> (js_value + payment_response)
   \<Rightarrow> (js_value + unit) \<Rightarrow> world" where
  "example_world ready sheet charge registration =
     \<lparr> braintree_client_create =
         (\<lambda>t. if t = ''expired'' then Inl (JSObject None) else Inr (BraintreeClient t)),
       braintree_googlePayment_create =
         (\<lambda>opts. if client opts = BraintreeClient ''no-google-pay'' then Inl (JSObject None)
                  else Inr example_instance),
       PaymentsClient =
         (\<lambda>opts. \<lparr> isReadyToPay = (\<lambda>rq. ready), loadPaymentData = (\<lambda>rq. sheet) \<rparr>),
       makePayment = (\<lambda>rq. charge),
       addPaymentMethod = (\<lambda>rq. registration) \<rparr>"

definition example_config :: config where
  "example_config =
     \<lparr> GPAY_MERCHANT_ID = Some ''BCR2DN6T'', GPAY_CLIENT_ENV = Some ''PRODUCTION'',
       accountBillingKey = ''billing'', accountPaymentKey = ''payment-methods'' \<rparr>"

definition example_transaction :: transaction_info where
  "example_transaction =
     \<lparr> totalPrice = Some ''10.00'', totalPriceStatus = ''FINAL'',
       currencyCode = ''USD'', countryCode = Some ''US'' \<rparr>"

text \<open>The module state once an initialization has stored \<open>example_instance\<close>.\<close>

definition ready_state :: module_state where
  "ready_state = \<lparr> googlePaymentInstance = Some example_instance \<rparr>"

definition sandbox_config :: config where
  "sandbox_config = example_config \<lparr> GPAY_CLIENT_ENV := Some ''TEST'' \<rparr>"

lemmas io_defs = call_def effect_def resolve_def reject_def andThen_def tryCatch_def

lemmas example_defs =
  example_instance_def example_world_def example_config_def example_transaction_def
  ready_state_def initial_state_def sandbox_config_def

lemmas flow_defs =
  requestOverrides_def googlePayClient_def readyRequest_def selectNonce_def Boolean_def
  truthy_def
  merchantInfo_def template_def

section \<open>How the flow composes\<close>

lemma tokenize_events:
  "ev \<in> set (snd (tokenizePaymentDataRequest cfg w s ti)) \<Longrightarrow> from_tokenization ev"
  by (auto simp: tokenizePaymentDataRequest_def io_defs
           split: option.splits sum.splits if_splits prod.splits)

lemma tokenize_filters:
  "filter is_setMessage (snd (tokenizePaymentDataRequest cfg w s ti)) = []"
  "filter is_setProcessing (snd (tokenizePaymentDataRequest cfg w s ti)) = []"
  "filter is_invalidate (snd (tokenizePaymentDataRequest cfg w s ti)) = []"
  "filter is_settlement (snd (tokenizePaymentDataRequest cfg w s ti)) = []"
proof -
  have *: "\<And>P. (\<And>ev. from_tokenization ev \<Longrightarrow> \<not> P ev) \<Longrightarrow>
      filter P (snd (tokenizePaymentDataRequest cfg w s ti)) = []"
    by (auto simp: filter_empty_conv dest: tokenize_events)
  show "filter is_setMessage (snd (tokenizePaymentDataRequest cfg w s ti)) = []"
    by (rule *) (erule from_tokenization.elims; simp)
  show "filter is_setProcessing (snd (tokenizePaymentDataRequest cfg w s ti)) = []"
    by (rule *) (erule from_tokenization.elims; simp)
  show "filter is_invalidate (snd (tokenizePaymentDataRequest cfg w s ti)) = []"
    by (rule *) (erule from_tokenization.elims; simp)
  show "filter is_settlement (snd (tokenizePaymentDataRequest cfg w s ti)) = []"
    by (rule *) (erule from_tokenization.elims; simp)
qed

lemma makeOneTimePayment_resolved:
  "makePayment w \<lparr> pr_nonce = n, usd = totalPrice ti \<rparr> = Inr response \<Longrightarrow>
   makeOneTimePayment cfg w ti n =
     (Inr (), [MakePayment \<lparr> pr_nonce = n, usd = totalPrice ti \<rparr>,
               InvalidateQueries (accountBillingKey cfg @ ''-payments''),
               SetMessage (JSString (''Payment for $'' @ template (totalPrice ti)
                                     @ '' successfully submitted with Google Pay''))
                          Variant_success (warnings response)])"
  by (simp add: makeOneTimePayment_def io_defs)

lemma makeOneTimePayment_rejected:
  "makePayment w \<lparr> pr_nonce = n, usd = totalPrice ti \<rparr> = Inl e \<Longrightarrow>
   makeOneTimePayment cfg w ti n =
     (Inr (), [MakePayment \<lparr> pr_nonce = n, usd = totalPrice ti \<rparr>,
               ReportException e ''Unable to complete Google Pay payment'',
               SetMessage (JSString ''Unable to complete Google Pay payment'')
                          Variant_error None])"
  by (simp add: makeOneTimePayment_def io_defs)

lemma addRecurringPayment_resolved:
  "addPaymentMethod w \<lparr> pm_type = ''payment_method_nonce'', pm_nonce = n, is_default = True \<rparr>
     = Inr u \<Longrightarrow>
   addRecurringPayment cfg w n =
     (Inr (), [AddPaymentMethod
                 \<lparr> pm_type = ''payment_method_nonce'', pm_nonce = n, is_default = True \<rparr>,
               InvalidateQueries (accountPaymentKey cfg @ ''-all''),
               SetMessage (JSString ''Successfully added Google Pay'') Variant_success None])"
  by (simp add: addRecurringPayment_def io_defs)

lemma addRecurringPayment_rejected:
  "addPaymentMethod w \<lparr> pm_type = ''payment_method_nonce'', pm_nonce = n, is_default = True \<rparr>
     = Inl e \<Longrightarrow>
   addRecurringPayment cfg w n =
     (Inr (), [AddPaymentMethod
                 \<lparr> pm_type = ''payment_method_nonce'', pm_nonce = n, is_default = True \<rparr>,
               ReportException e ''Unable to add payment method'',
               SetMessage (JSString ''Unable to add payment method'') Variant_error None])"
  by (simp add: addRecurringPayment_def io_defs)

lemma settle_resolves: "fst (settle cfg w act ti n) = Inr ()"
  by (auto simp: settle_def makeOneTimePayment_def addRecurringPayment_def io_defs
           split: sum.splits)

lemma gPay_tokenized:
  assumes "fst (tokenizePaymentDataRequest cfg w s ti) = Inr n"
  shows "gPay cfg w s act ti =
     (Inr (), snd (tokenizePaymentDataRequest cfg w s ti) @ [SetProcessing True]
              @ snd (settle cfg w act ti n) @ [SetProcessing False])"
  using assms settle_resolves [of cfg w act ti n]
  by (cases "settle cfg w act ti n"; cases "tokenizePaymentDataRequest cfg w s ti")
     (simp add: gPay_def settle_def io_defs)

lemma gPay_not_tokenized:
  assumes "fst (tokenizePaymentDataRequest cfg w s ti) = Inl e"
  shows "gPay cfg w s act ti =
     (case statusCode e of
        Inl raised \<Rightarrow> (Inl raised, snd (tokenizePaymentDataRequest cfg w s ti))
      | Inr sc \<Rightarrow>
          if sc = Some ''CANCELED'' then (Inr (), snd (tokenizePaymentDataRequest cfg w s ti))
          else (Inr (), snd (tokenizePaymentDataRequest cfg w s ti)
                        @ [SetMessage e Variant_error None]))"
  using assms
  by (cases "tokenizePaymentDataRequest cfg w s ti") (simp add: gPay_def io_defs split: sum.splits)

section \<open>The authorization callback\<close>

text \<open>
  C9. Whatever payment data the provider passes to \<^verbatim>\<open>onPaymentAuthorized\<close>, the
  callback resolves (it never rejects) with the acceptance signal, transaction state
  \<^verbatim>\<open>SUCCESS\<close>; the payment data is not looked at, so two different payment data get the
  same answer.
\<close>

theorem onPaymentAuthorized_always_accepts:
  "onPaymentAuthorized paymentData = Inr \<lparr> transactionState = ''SUCCESS'' \<rparr>
   \<and> onPaymentAuthorized paymentData = onPaymentAuthorized paymentData'"
  by (simp add: onPaymentAuthorized_def)

section \<open>Tokenization\<close>

text \<open>
  C1. Whenever tokenization resolves with a nonce, the provider response was parsed by the
  stored instance, and the nonce returned is the nonce parsed from that response exactly
  in the configuration where \<^verbatim>\<open>GPAY_MERCHANT_ID\<close> is set and non-empty and
  \<^verbatim>\<open>GPAY_CLIENT_ENV\<close> is \<^verbatim>\<open>PRODUCTION\<close>; in every other configuration it is the literal
  \<^verbatim>\<open>fake-android-pay-nonce\<close>.
\<close>

theorem tokenized_nonce_selection:
  assumes "fst (tokenizePaymentDataRequest cfg w s ti) = Inr n"
  shows "\<exists>g req pd payload.
           googlePaymentInstance s = Some g
         \<and> loadPaymentData (googlePayClient cfg w) req = Inr pd
         \<and> parseResponse g pd = Inr payload
         \<and> ParseResponse pd \<in> set (snd (tokenizePaymentDataRequest cfg w s ti))
         \<and> n = (if GPAY_MERCHANT_ID cfg \<notin> {None, Some []}
                    \<and> GPAY_CLIENT_ENV cfg = Some ''PRODUCTION''
                 then nonce payload else ''fake-android-pay-nonce'')"
  using assms
  by (fastforce simp: tokenizePaymentDataRequest_def io_defs selectNonce_def Boolean_def
           split: option.splits sum.splits if_splits prod.splits)

theorem tokenized_nonce_selection_witness:
  "fst (tokenizePaymentDataRequest example_config
          (example_world (Inr \<lparr> result = True \<rparr>) (Inr (PaymentData ''abc'')) (Inr \<lparr> warnings = None \<rparr>) (Inr ()))
          ready_state example_transaction) = Inr ''nonce-abc''
   \<and> fst (tokenizePaymentDataRequest sandbox_config
          (example_world (Inr \<lparr> result = True \<rparr>) (Inr (PaymentData ''abc'')) (Inr \<lparr> warnings = None \<rparr>) (Inr ()))
          ready_state example_transaction) = Inr ''fake-android-pay-nonce''
   \<and> (\<exists>payload. parseResponse example_instance (PaymentData ''abc'') = Inr payload
        \<and> ''nonce-abc'' = nonce payload)"
proof -
  let ?w = "example_world (Inr \<lparr> result = True \<rparr>) (Inr (PaymentData ''abc'')) (Inr \<lparr> warnings = None \<rparr>) (Inr ())"
  have h: "fst (tokenizePaymentDataRequest example_config ?w ready_state example_transaction)
             = Inr ''nonce-abc''"
    by (simp add: tokenizePaymentDataRequest_def io_defs flow_defs example_defs)
  have h': "fst (tokenizePaymentDataRequest sandbox_config ?w ready_state example_transaction)
             = Inr ''fake-android-pay-nonce''"
    by (simp add: tokenizePaymentDataRequest_def io_defs flow_defs example_defs)
  from tokenized_nonce_selection [OF h] tokenized_nonce_selection [OF h'] h h' show ?thesis
    by (auto simp: example_defs googlePayClient_def)
qed

text \<open>
  C2 does not hold of the code. The readiness answer is an object and line 83 negates the
  object, not its field \<^verbatim>\<open>result\<close>, so the rejection
  \<^verbatim>\<open>Your device does not support Google Pay.\<close> is never taken. With a provider that
  answers \<^verbatim>\<open>{result: false}\<close>, a one-time payment goes on after the readiness query:
  it loads the payment sheet, parses the response, sends the charge, invalidates the
  billing key and reports success. No device-not-supported message is shown.
\<close>

theorem unready_response_is_not_checked:
  "result \<lparr> result = False \<rparr> = False
   \<and> gPay example_config
       (example_world (Inr \<lparr> result = False \<rparr>) (Inr (PaymentData ''abc''))
          (Inr \<lparr> warnings = None \<rparr>) (Inr ()))
       ready_state one_time_payment example_transaction =
     (Inr (),
      [CreatePaymentDataRequest (requestOverrides example_config example_transaction),
       NewPaymentsClient (Some ''PRODUCTION'')
         \<lparr> merchantId = ''BCR2DN6T'', merchantName = ''Linode'' \<rparr>,
       IsReadyToPay \<lparr> apiVersion = 2, apiVersionMinor = 0,
                      rq_allowedPaymentMethods = [''CARD''] \<rparr>,
       LoadPaymentData \<lparr> allowedPaymentMethods = [''CARD''] \<rparr>,
       ParseResponse (PaymentData ''abc''),
       SetProcessing True,
       MakePayment \<lparr> pr_nonce = ''nonce-abc'', usd = Some ''10.00'' \<rparr>,
       InvalidateQueries ''billing-payments'',
       SetMessage (JSString ''Payment for $10.00 successfully submitted with Google Pay'')
                  Variant_success None,
       SetProcessing False])"
  by (simp add: gPay_def tokenizePaymentDataRequest_def makeOneTimePayment_def io_defs
                flow_defs example_defs)

section \<open>Cancellation\<close>

text \<open>
  C3. When the provider operation awaited by \<^verbatim>\<open>gPay\<close> rejects with a value whose
  \<^verbatim>\<open>statusCode\<close> is \<^verbatim>\<open>CANCELED\<close>, \<^verbatim>\<open>gPay\<close> returns normally having done nothing
  beyond the provider calls already made: no \<^verbatim>\<open>setMessage\<close>, no invalidation, no
  settlement call. In particular this is what happens when the payment sheet
  (\<^verbatim>\<open>loadPaymentData\<close>) rejects with that status: the trace ends with the sheet.
\<close>

theorem canceled_exits_silently:
  "(fst (tokenizePaymentDataRequest cfg w s ti) = Inl e
      \<and> statusCode e = Inr (Some ''CANCELED'')
    \<longrightarrow> gPay cfg w s act ti = (Inr (), snd (tokenizePaymentDataRequest cfg w s ti))
        \<and> (\<forall>ev \<in> set (snd (gPay cfg w s act ti)).
              \<not> is_setMessage ev \<and> \<not> is_invalidate ev \<and> \<not> is_settlement ev))
   \<and> (googlePaymentInstance s = Some g
      \<and> createPaymentDataRequest g (requestOverrides cfg ti) = Inr req
      \<and> isReadyToPay (googlePayClient cfg w) (readyRequest req) = Inr isReady
      \<and> loadPaymentData (googlePayClient cfg w) req = Inl e'
      \<and> statusCode e' = Inr (Some ''CANCELED'')
    \<longrightarrow> gPay cfg w s act ti =
          (Inr (),
           [CreatePaymentDataRequest (requestOverrides cfg ti),
            NewPaymentsClient (GPAY_CLIENT_ENV cfg) (merchantInfo cfg),
            IsReadyToPay (readyRequest req),
            LoadPaymentData req]))"
proof (intro conjI impI)
  assume h: "fst (tokenizePaymentDataRequest cfg w s ti) = Inl e
             \<and> statusCode e = Inr (Some ''CANCELED'')"
  then show g: "gPay cfg w s act ti = (Inr (), snd (tokenizePaymentDataRequest cfg w s ti))"
    using gPay_not_tokenized [of cfg w s ti e act] by simp
  have "\<not> is_setMessage ev \<and> \<not> is_invalidate ev \<and> \<not> is_settlement ev"
    if "ev \<in> set (snd (tokenizePaymentDataRequest cfg w s ti))" for ev
    using tokenize_events [OF that] by (cases ev) simp_all
  with g show "\<forall>ev \<in> set (snd (gPay cfg w s act ti)).
              \<not> is_setMessage ev \<and> \<not> is_invalidate ev \<and> \<not> is_settlement ev"
    by simp
next
  assume h: "googlePaymentInstance s = Some g
      \<and> createPaymentDataRequest g (requestOverrides cfg ti) = Inr req
      \<and> isReadyToPay (googlePayClient cfg w) (readyRequest req) = Inr isReady
      \<and> loadPaymentData (googlePayClient cfg w) req = Inl e'
      \<and> statusCode e' = Inr (Some ''CANCELED'')"
  then have tok: "tokenizePaymentDataRequest cfg w s ti =
      (Inl e',
       [CreatePaymentDataRequest (requestOverrides cfg ti),
        NewPaymentsClient (GPAY_CLIENT_ENV cfg) (merchantInfo cfg),
        IsReadyToPay (readyRequest req), LoadPaymentData req])"
    by (simp add: tokenizePaymentDataRequest_def io_defs truthy_def)
  show "gPay cfg w s act ti =
          (Inr (),
           [CreatePaymentDataRequest (requestOverrides cfg ti),
            NewPaymentsClient (GPAY_CLIENT_ENV cfg) (merchantInfo cfg),
            IsReadyToPay (readyRequest req),
            LoadPaymentData req])"
    using gPay_not_tokenized [of cfg w s ti e' act] tok h by simp
qed

theorem canceled_exits_silently_witness:
  "gPay example_config
     (example_world (Inr \<lparr> result = True \<rparr>) (Inl (JSObject (Some ''CANCELED''))) (Inr \<lparr> warnings = None \<rparr>) (Inr ()))
     ready_state add_recurring_payment example_transaction =
   (Inr (),
    [CreatePaymentDataRequest (requestOverrides example_config example_transaction),
     NewPaymentsClient (Some ''PRODUCTION'') \<lparr> merchantId = ''BCR2DN6T'', merchantName = ''Linode'' \<rparr>,
     IsReadyToPay \<lparr> apiVersion = 2, apiVersionMinor = 0, rq_allowedPaymentMethods = [''CARD''] \<rparr>,
     LoadPaymentData \<lparr> allowedPaymentMethods = [''CARD''] \<rparr>])
   \<and> filter (\<lambda>ev. is_setMessage ev \<or> is_invalidate ev \<or> is_settlement ev)
       (snd (gPay example_config
               (example_world (Inr \<lparr> result = True \<rparr>) (Inl (JSObject (Some ''CANCELED'')))
                  (Inr \<lparr> warnings = None \<rparr>) (Inr ()))
               ready_state add_recurring_payment example_transaction))
     = []"
proof -
  let ?w = "example_world (Inr \<lparr> result = True \<rparr>) (Inl (JSObject (Some ''CANCELED'')))
              (Inr \<lparr> warnings = None \<rparr>) (Inr ())"
  let ?req = "\<lparr> allowedPaymentMethods = [''CARD''] \<rparr>"
  have t: "tokenizePaymentDataRequest example_config ?w ready_state example_transaction
           = (Inl (JSObject (Some ''CANCELED'')),
              [CreatePaymentDataRequest (requestOverrides example_config example_transaction),
     NewPaymentsClient (Some ''PRODUCTION'') \<lparr> merchantId = ''BCR2DN6T'', merchantName = ''Linode'' \<rparr>,
     IsReadyToPay \<lparr> apiVersion = 2, apiVersionMinor = 0, rq_allowedPaymentMethods = [''CARD''] \<rparr>,
     LoadPaymentData \<lparr> allowedPaymentMethods = [''CARD''] \<rparr>])"
    by (simp add: tokenizePaymentDataRequest_def io_defs flow_defs example_defs)
  have a: "fst (tokenizePaymentDataRequest example_config ?w ready_state example_transaction)
             = Inl (JSObject (Some ''CANCELED''))
           \<and> statusCode (JSObject (Some ''CANCELED'')) = Inr (Some ''CANCELED'')"
    by (simp add: t)
  have b: "googlePaymentInstance ready_state = Some example_instance
      \<and> createPaymentDataRequest example_instance
          (requestOverrides example_config example_transaction) = Inr ?req
      \<and> isReadyToPay (googlePayClient example_config ?w) (readyRequest ?req)
          = Inr \<lparr> result = True \<rparr>
      \<and> loadPaymentData (googlePayClient example_config ?w) ?req
          = Inl (JSObject (Some ''CANCELED''))
      \<and> statusCode (JSObject (Some ''CANCELED'')) = Inr (Some ''CANCELED'')"
    by (simp add: example_defs googlePayClient_def)
  from canceled_exits_silently
         [of example_config ?w ready_state example_transaction "JSObject (Some ''CANCELED'')"
             add_recurring_payment example_instance ?req "\<lparr> result = True \<rparr>"
             "JSObject (Some ''CANCELED'')"]
       a b t
  show ?thesis by simp
qed

section \<open>One-time payment\<close>

text \<open>
  C4. In a one-time payment whose tokenization yields a nonce: if the charge call resolves,
  the whole run invalidates exactly one cache key, the billing key followed by
  \<^verbatim>\<open>-payments\<close>, and the charge call comes before that invalidation in the trace; if
  the charge call rejects, nothing is invalidated. With the billing key \<^verbatim>\<open>billing\<close>
  the key invalidated is \<^verbatim>\<open>billing-payments\<close>.
\<close>

theorem one_time_payment_invalidates_after_charge:
  assumes "fst (tokenizePaymentDataRequest cfg w s ti) = Inr n"
  shows "(makePayment w \<lparr> pr_nonce = n, usd = totalPrice ti \<rparr> = Inr response
          \<longrightarrow> filter is_invalidate (snd (gPay cfg w s one_time_payment ti))
                = [InvalidateQueries (accountBillingKey cfg @ ''-payments'')]
              \<and> MakePayment \<lparr> pr_nonce = n, usd = totalPrice ti \<rparr>
                \<in> set (takeWhile (\<lambda>ev. \<not> is_invalidate ev)
                                   (snd (gPay cfg w s one_time_payment ti))))
       \<and> (makePayment w \<lparr> pr_nonce = n, usd = totalPrice ti \<rparr> = Inl e
          \<longrightarrow> filter is_invalidate (snd (gPay cfg w s one_time_payment ti)) = [])"
proof -
  let ?tok = "snd (tokenizePaymentDataRequest cfg w s ti)"
  have none: "\<forall>ev \<in> set ?tok. \<not> is_invalidate ev"
    using tokenize_filters(3) [of cfg w s ti] by (simp add: filter_empty_conv)
  have g: "snd (gPay cfg w s one_time_payment ti) =
      ?tok @ [SetProcessing True] @ snd (makeOneTimePayment cfg w ti n) @ [SetProcessing False]"
    using gPay_tokenized [OF assms, of one_time_payment] by (simp add: settle_def)
  show ?thesis
  proof (intro conjI impI)
    assume ok: "makePayment w \<lparr> pr_nonce = n, usd = totalPrice ti \<rparr> = Inr response"
    show "filter is_invalidate (snd (gPay cfg w s one_time_payment ti))
            = [InvalidateQueries (accountBillingKey cfg @ ''-payments'')]"
      using tokenize_filters(3) [of cfg w s ti]
      by (simp add: g makeOneTimePayment_resolved [OF ok])
    show "MakePayment \<lparr> pr_nonce = n, usd = totalPrice ti \<rparr>
                \<in> set (takeWhile (\<lambda>ev. \<not> is_invalidate ev)
                                   (snd (gPay cfg w s one_time_payment ti)))"
      using none by (simp add: g makeOneTimePayment_resolved [OF ok] takeWhile_append2)
  next
    assume bad: "makePayment w \<lparr> pr_nonce = n, usd = totalPrice ti \<rparr> = Inl e"
    show "filter is_invalidate (snd (gPay cfg w s one_time_payment ti)) = []"
      using tokenize_filters(3) [of cfg w s ti]
      by (simp add: g makeOneTimePayment_rejected [OF bad])
  qed
qed

theorem one_time_payment_invalidates_after_charge_witness:
  "filter is_invalidate
     (snd (gPay example_config
             (example_world (Inr \<lparr> result = True \<rparr>) (Inr (PaymentData ''abc''))
                (Inr \<lparr> warnings = None \<rparr>) (Inr ()))
             ready_state one_time_payment example_transaction))
     = [InvalidateQueries ''billing-payments'']
   \<and> MakePayment \<lparr> pr_nonce = ''nonce-abc'', usd = Some ''10.00'' \<rparr>
       \<in> set (takeWhile (\<lambda>ev. \<not> is_invalidate ev)
           (snd (gPay example_config
             (example_world (Inr \<lparr> result = True \<rparr>) (Inr (PaymentData ''abc''))
                (Inr \<lparr> warnings = None \<rparr>) (Inr ()))
             ready_state one_time_payment example_transaction)))
   \<and> filter is_invalidate
     (snd (gPay example_config
             (example_world (Inr \<lparr> result = True \<rparr>) (Inr (PaymentData ''abc''))
                (Inl (JSObject None)) (Inr ()))
             ready_state one_time_payment example_transaction))
     = []"
proof -
  let ?ok = "example_world (Inr \<lparr> result = True \<rparr>) (Inr (PaymentData ''abc''))
                (Inr \<lparr> warnings = None \<rparr>) (Inr ())"
  let ?bad = "example_world (Inr \<lparr> result = True \<rparr>) (Inr (PaymentData ''abc''))
                (Inl (JSObject None)) (Inr ())"
  have t: "fst (tokenizePaymentDataRequest example_config ?ok ready_state example_transaction)
             = Inr ''nonce-abc''"
    by (simp add: tokenizePaymentDataRequest_def io_defs flow_defs example_defs)
  have t': "fst (tokenizePaymentDataRequest example_config ?bad ready_state example_transaction)
             = Inr ''nonce-abc''"
    by (simp add: tokenizePaymentDataRequest_def io_defs flow_defs example_defs)
  have p: "makePayment ?ok \<lparr> pr_nonce = ''nonce-abc'', usd = totalPrice example_transaction \<rparr>
             = Inr \<lparr> warnings = None \<rparr>"
    by (simp add: example_world_def)
  have p': "makePayment ?bad \<lparr> pr_nonce = ''nonce-abc'', usd = totalPrice example_transaction \<rparr>
             = Inl (JSObject None)"
    by (simp add: example_world_def)
  have k: "accountBillingKey example_config @ ''-payments'' = ''billing-payments''"
    by (simp add: example_config_def)
  have u: "totalPrice example_transaction = Some ''10.00''"
    by (simp add: example_transaction_def)
  from one_time_payment_invalidates_after_charge [OF t, of "\<lparr> warnings = None \<rparr>"] p
       one_time_payment_invalidates_after_charge [OF t', of _ "JSObject None"] p'
  show ?thesis by (simp add: k u)
qed

text \<open>
  C5. A one-time payment with total price \<^verbatim>\<open>10.00\<close>, a provider flow that yields a
  nonce and a charge that resolves calls \<^verbatim>\<open>setMessage\<close> exactly once, with the text
  \<^verbatim>\<open>Payment for $10.00 successfully submitted with Google Pay\<close>, severity success, and
  the warnings of the charge response.
\<close>

theorem one_time_payment_success_message:
  assumes "fst (tokenizePaymentDataRequest cfg w s ti) = Inr n"
    and "totalPrice ti = Some ''10.00''"
    and "makePayment w \<lparr> pr_nonce = n, usd = Some ''10.00'' \<rparr> = Inr response"
  shows "filter is_setMessage (snd (gPay cfg w s one_time_payment ti))
           = [SetMessage (JSString ''Payment for $10.00 successfully submitted with Google Pay'')
                         Variant_success (warnings response)]"
proof -
  have ok: "makePayment w \<lparr> pr_nonce = n, usd = totalPrice ti \<rparr> = Inr response"
    using assms by simp
  show ?thesis
    using tokenize_filters(1) [of cfg w s ti] assms(2)
    by (simp add: gPay_tokenized [OF assms(1)] settle_def makeOneTimePayment_resolved [OF ok]
                  template_def)
qed

theorem one_time_payment_success_message_witness:
  "filter is_setMessage
     (snd (gPay example_config
             (example_world (Inr \<lparr> result = True \<rparr>) (Inr (PaymentData ''abc''))
                (Inr \<lparr> warnings = Some [\<lparr> title = ''Notice'', detail = ''Pending review'' \<rparr>] \<rparr>)
                (Inr ()))
             ready_state one_time_payment example_transaction))
     = [SetMessage (JSString ''Payment for $10.00 successfully submitted with Google Pay'')
                   Variant_success
                   (Some [\<lparr> title = ''Notice'', detail = ''Pending review'' \<rparr>])]"
proof -
  let ?r = "\<lparr> warnings = Some [\<lparr> title = ''Notice'', detail = ''Pending review'' \<rparr>] \<rparr>"
  let ?w = "example_world (Inr \<lparr> result = True \<rparr>) (Inr (PaymentData ''abc'')) (Inr ?r) (Inr ())"
  have t: "fst (tokenizePaymentDataRequest example_config ?w ready_state example_transaction)
             = Inr ''nonce-abc''"
    by (simp add: tokenizePaymentDataRequest_def io_defs flow_defs example_defs)
  have u: "totalPrice example_transaction = Some ''10.00''"
    by (simp add: example_transaction_def)
  have p: "makePayment ?w \<lparr> pr_nonce = ''nonce-abc'', usd = Some ''10.00'' \<rparr> = Inr ?r"
    by (simp add: example_world_def)
  from one_time_payment_success_message [OF t u p] show ?thesis by simp
qed

text \<open>
  C6. A one-time payment whose provider flow yields a nonce and whose charge rejects
  reports the rejection to exception tracking, then calls \<^verbatim>\<open>setMessage\<close> once with
  \<^verbatim>\<open>Unable to complete Google Pay payment\<close> and severity error; nothing is invalidated,
  and the charge is sent once only.
\<close>

theorem one_time_payment_failure:
  assumes "fst (tokenizePaymentDataRequest cfg w s ti) = Inr n"
    and "makePayment w \<lparr> pr_nonce = n, usd = totalPrice ti \<rparr> = Inl e"
  shows "gPay cfg w s one_time_payment ti =
           (Inr (),
            snd (tokenizePaymentDataRequest cfg w s ti)
            @ [SetProcessing True,
               MakePayment \<lparr> pr_nonce = n, usd = totalPrice ti \<rparr>,
               ReportException e ''Unable to complete Google Pay payment'',
               SetMessage (JSString ''Unable to complete Google Pay payment'')
                          Variant_error None,
               SetProcessing False])
         \<and> filter is_setMessage (snd (gPay cfg w s one_time_payment ti))
             = [SetMessage (JSString ''Unable to complete Google Pay payment'')
                           Variant_error None]
         \<and> filter is_invalidate (snd (gPay cfg w s one_time_payment ti)) = []
         \<and> filter is_settlement (snd (gPay cfg w s one_time_payment ti))
             = [MakePayment \<lparr> pr_nonce = n, usd = totalPrice ti \<rparr>]"
  using tokenize_filters [of cfg w s ti]
  by (simp add: gPay_tokenized [OF assms(1)] settle_def makeOneTimePayment_rejected [OF assms(2)])

theorem one_time_payment_failure_witness:
  "gPay example_config
     (example_world (Inr \<lparr> result = True \<rparr>) (Inr (PaymentData ''abc'')) (Inl (JSObject None)) (Inr ()))
     ready_state one_time_payment example_transaction =
   (Inr (),
    snd (tokenizePaymentDataRequest example_config
           (example_world (Inr \<lparr> result = True \<rparr>) (Inr (PaymentData ''abc'')) (Inl (JSObject None)) (Inr ()))
           ready_state example_transaction)
    @ [SetProcessing True,
       MakePayment \<lparr> pr_nonce = ''nonce-abc'', usd = Some ''10.00'' \<rparr>,
       ReportException (JSObject None) ''Unable to complete Google Pay payment'',
       SetMessage (JSString ''Unable to complete Google Pay payment'') Variant_error None,
       SetProcessing False])"
proof -
  let ?w = "example_world (Inr \<lparr> result = True \<rparr>) (Inr (PaymentData ''abc'')) (Inl (JSObject None)) (Inr ())"
  have t: "fst (tokenizePaymentDataRequest example_config ?w ready_state example_transaction)
             = Inr ''nonce-abc''"
    by (simp add: tokenizePaymentDataRequest_def io_defs flow_defs example_defs)
  have p: "makePayment ?w \<lparr> pr_nonce = ''nonce-abc'', usd = totalPrice example_transaction \<rparr>
             = Inl (JSObject None)"
    by (simp add: example_world_def)
  have u: "totalPrice example_transaction = Some ''10.00''"
    by (simp add: example_transaction_def)
  from one_time_payment_failure [OF t p] show ?thesis by (simp add: u)
qed

section \<open>Recurring payment\<close>

text \<open>
  C7. In an \<^verbatim>\<open>add-recurring-payment\<close> call whose tokenization yields a nonce, the nonce
  is sent to the registration endpoint as a \<^verbatim>\<open>payment_method_nonce\<close> with
  \<^verbatim>\<open>is_default\<close> true. If the registration resolves, exactly one cache key is
  invalidated, the payment key followed by \<^verbatim>\<open>-all\<close>, after the registration call, and
  \<^verbatim>\<open>setMessage\<close> reports success. If it rejects, the rejection is reported,
  \<^verbatim>\<open>setMessage\<close> gets \<^verbatim>\<open>Unable to add payment method\<close> with severity error, and
  nothing is invalidated. With the payment key \<^verbatim>\<open>payment-methods\<close> the key invalidated
  is \<^verbatim>\<open>payment-methods-all\<close>.
\<close>

theorem recurring_payment_registration:
  assumes "fst (tokenizePaymentDataRequest cfg w s ti) = Inr n"
  shows "(addPaymentMethod w
            \<lparr> pm_type = ''payment_method_nonce'', pm_nonce = n, is_default = True \<rparr> = Inr u
          \<longrightarrow> gPay cfg w s add_recurring_payment ti =
                (Inr (),
                 snd (tokenizePaymentDataRequest cfg w s ti)
                 @ [SetProcessing True,
                    AddPaymentMethod
                      \<lparr> pm_type = ''payment_method_nonce'', pm_nonce = n, is_default = True \<rparr>,
                    InvalidateQueries (accountPaymentKey cfg @ ''-all''),
                    SetMessage (JSString ''Successfully added Google Pay'') Variant_success None,
                    SetProcessing False])
              \<and> filter is_invalidate (snd (gPay cfg w s add_recurring_payment ti))
                  = [InvalidateQueries (accountPaymentKey cfg @ ''-all'')]
              \<and> filter is_setMessage (snd (gPay cfg w s add_recurring_payment ti))
                  = [SetMessage (JSString ''Successfully added Google Pay'')
                                Variant_success None])
       \<and> (addPaymentMethod w
            \<lparr> pm_type = ''payment_method_nonce'', pm_nonce = n, is_default = True \<rparr> = Inl e
          \<longrightarrow> gPay cfg w s add_recurring_payment ti =
                (Inr (),
                 snd (tokenizePaymentDataRequest cfg w s ti)
                 @ [SetProcessing True,
                    AddPaymentMethod
                      \<lparr> pm_type = ''payment_method_nonce'', pm_nonce = n, is_default = True \<rparr>,
                    ReportException e ''Unable to add payment method'',
                    SetMessage (JSString ''Unable to add payment method'') Variant_error None,
                    SetProcessing False])
              \<and> filter is_invalidate (snd (gPay cfg w s add_recurring_payment ti)) = []
              \<and> filter is_setMessage (snd (gPay cfg w s add_recurring_payment ti))
                  = [SetMessage (JSString ''Unable to add payment method'')
                                Variant_error None])"
proof (intro conjI impI)
  assume ok: "addPaymentMethod w
            \<lparr> pm_type = ''payment_method_nonce'', pm_nonce = n, is_default = True \<rparr> = Inr u"
  have g: "gPay cfg w s add_recurring_payment ti =
                (Inr (),
                 snd (tokenizePaymentDataRequest cfg w s ti)
                 @ [SetProcessing True,
                    AddPaymentMethod
                      \<lparr> pm_type = ''payment_method_nonce'', pm_nonce = n, is_default = True \<rparr>,
                    InvalidateQueries (accountPaymentKey cfg @ ''-all''),
                    SetMessage (JSString ''Successfully added Google Pay'') Variant_success None,
                    SetProcessing False])"
    by (simp add: gPay_tokenized [OF assms] settle_def addRecurringPayment_resolved [OF ok])
  show "gPay cfg w s add_recurring_payment ti =
                (Inr (),
                 snd (tokenizePaymentDataRequest cfg w s ti)
                 @ [SetProcessing True,
                    AddPaymentMethod
                      \<lparr> pm_type = ''payment_method_nonce'', pm_nonce = n, is_default = True \<rparr>,
                    InvalidateQueries (accountPaymentKey cfg @ ''-all''),
                    SetMessage (JSString ''Successfully added Google Pay'') Variant_success None,
                    SetProcessing False])"
    by (rule g)
  show "filter is_invalidate (snd (gPay cfg w s add_recurring_payment ti))
                  = [InvalidateQueries (accountPaymentKey cfg @ ''-all'')]"
    using tokenize_filters(3) [of cfg w s ti] by (simp add: g)
  show "filter is_setMessage (snd (gPay cfg w s add_recurring_payment ti))
                  = [SetMessage (JSString ''Successfully added Google Pay'')
                                Variant_success None]"
    using tokenize_filters(1) [of cfg w s ti] by (simp add: g)
next
  assume bad: "addPaymentMethod w
            \<lparr> pm_type = ''payment_method_nonce'', pm_nonce = n, is_default = True \<rparr> = Inl e"
  have g: "gPay cfg w s add_recurring_payment ti =
                (Inr (),
                 snd (tokenizePaymentDataRequest cfg w s ti)
                 @ [SetProcessing True,
                    AddPaymentMethod
                      \<lparr> pm_type = ''payment_method_nonce'', pm_nonce = n, is_default = True \<rparr>,
                    ReportException e ''Unable to add payment method'',
                    SetMessage (JSString ''Unable to add payment method'') Variant_error None,
                    SetProcessing False])"
    by (simp add: gPay_tokenized [OF assms] settle_def addRecurringPayment_rejected [OF bad])
  show "gPay cfg w s add_recurring_payment ti =
                (Inr (),
                 snd (tokenizePaymentDataRequest cfg w s ti)
                 @ [SetProcessing True,
                    AddPaymentMethod
                      \<lparr> pm_type = ''payment_method_nonce'', pm_nonce = n, is_default = True \<rparr>,
                    ReportException e ''Unable to add payment method'',
                    SetMessage (JSString ''Unable to add payment method'') Variant_error None,
                    SetProcessing False])"
    by (rule g)
  show "filter is_invalidate (snd (gPay cfg w s add_recurring_payment ti)) = []"
    using tokenize_filters(3) [of cfg w s ti] by (simp add: g)
  show "filter is_setMessage (snd (gPay cfg w s add_recurring_payment ti))
                  = [SetMessage (JSString ''Unable to add payment method'')
                                Variant_error None]"
    using tokenize_filters(1) [of cfg w s ti] by (simp add: g)
qed

theorem recurring_payment_registration_witness:
  "filter (\<lambda>ev. is_settlement ev \<or> is_invalidate ev \<or> is_setMessage ev)
     (snd (gPay example_config
             (example_world (Inr \<lparr> result = True \<rparr>) (Inr (PaymentData ''abc''))
                (Inr \<lparr> warnings = None \<rparr>) (Inr ()))
             ready_state add_recurring_payment example_transaction))
     = [AddPaymentMethod
          \<lparr> pm_type = ''payment_method_nonce'', pm_nonce = ''nonce-abc'', is_default = True \<rparr>,
        InvalidateQueries ''payment-methods-all'',
        SetMessage (JSString ''Successfully added Google Pay'') Variant_success None]
   \<and> filter (\<lambda>ev. is_settlement ev \<or> is_invalidate ev \<or> is_setMessage ev)
     (snd (gPay example_config
             (example_world (Inr \<lparr> result = True \<rparr>) (Inr (PaymentData ''abc''))
                (Inr \<lparr> warnings = None \<rparr>) (Inl (JSObject None)))
             ready_state add_recurring_payment example_transaction))
     = [AddPaymentMethod
          \<lparr> pm_type = ''payment_method_nonce'', pm_nonce = ''nonce-abc'', is_default = True \<rparr>,
        SetMessage (JSString ''Unable to add payment method'') Variant_error None]"
proof -
  let ?ok = "example_world (Inr \<lparr> result = True \<rparr>) (Inr (PaymentData ''abc''))
                (Inr \<lparr> warnings = None \<rparr>) (Inr ())"
  let ?bad = "example_world (Inr \<lparr> result = True \<rparr>) (Inr (PaymentData ''abc''))
                (Inr \<lparr> warnings = None \<rparr>) (Inl (JSObject None))"
  let ?rq = "\<lparr> pm_type = ''payment_method_nonce'', pm_nonce = ''nonce-abc'', is_default = True \<rparr>"
  have t: "tokenizePaymentDataRequest example_config ?ok ready_state example_transaction
             = (Inr ''nonce-abc'',
                [CreatePaymentDataRequest (requestOverrides example_config example_transaction),
                 NewPaymentsClient (Some ''PRODUCTION'')
                   \<lparr> merchantId = ''BCR2DN6T'', merchantName = ''Linode'' \<rparr>,
                 IsReadyToPay \<lparr> apiVersion = 2, apiVersionMinor = 0,
                                rq_allowedPaymentMethods = [''CARD''] \<rparr>,
                 LoadPaymentData \<lparr> allowedPaymentMethods = [''CARD''] \<rparr>,
                 ParseResponse (PaymentData ''abc'')])"
    by (simp add: tokenizePaymentDataRequest_def io_defs flow_defs example_defs)
  have t': "tokenizePaymentDataRequest example_config ?bad ready_state example_transaction
             = (Inr ''nonce-abc'',
                [CreatePaymentDataRequest (requestOverrides example_config example_transaction),
                 NewPaymentsClient (Some ''PRODUCTION'')
                   \<lparr> merchantId = ''BCR2DN6T'', merchantName = ''Linode'' \<rparr>,
                 IsReadyToPay \<lparr> apiVersion = 2, apiVersionMinor = 0,
                                rq_allowedPaymentMethods = [''CARD''] \<rparr>,
                 LoadPaymentData \<lparr> allowedPaymentMethods = [''CARD''] \<rparr>,
                 ParseResponse (PaymentData ''abc'')])"
    by (simp add: tokenizePaymentDataRequest_def io_defs flow_defs example_defs)
  have f: "fst (tokenizePaymentDataRequest example_config ?ok ready_state example_transaction)
             = Inr ''nonce-abc''"
    by (simp add: t)
  have f': "fst (tokenizePaymentDataRequest example_config ?bad ready_state example_transaction)
             = Inr ''nonce-abc''"
    by (simp add: t')
  have p: "addPaymentMethod ?ok ?rq = Inr ()"
    by (simp add: example_world_def)
  have p': "addPaymentMethod ?bad ?rq = Inl (JSObject None)"
    by (simp add: example_world_def)
  have k: "accountPaymentKey example_config @ ''-all'' = ''payment-methods-all''"
    by (simp add: example_config_def)
  from recurring_payment_registration [OF f, of "()"] p
       recurring_payment_registration [OF f', of _ "JSObject None"] p'
  show ?thesis by (simp add: k t t')
qed

section \<open>Initialization\<close>

text \<open>
  C8, as stated, fails: the \<^verbatim>\<open>catch\<close> of \<^verbatim>\<open>initGooglePaymentInstance\<close> does not
  clear the module-level slot. After one initialization has succeeded, a second one that
  fails (here at client creation, with the token \<^verbatim>\<open>expired\<close>) returns
  \<^verbatim>\<open>{error: true}\<close> and yet leaves the adapter usable: tokenization in the resulting
  state runs on the earlier instance and yields a nonce.
\<close>

theorem failed_init_keeps_earlier_session:
  "snd (fst (initGooglePaymentInstance example_config
               (example_world (Inr \<lparr> result = True \<rparr>) (Inr (PaymentData ''abc''))
                  (Inr \<lparr> warnings = None \<rparr>) (Inr ()))
               ''fresh'' initial_state)) = ready_state
   \<and> error (fst (fst (initGooglePaymentInstance example_config
               (example_world (Inr \<lparr> result = True \<rparr>) (Inr (PaymentData ''abc''))
                  (Inr \<lparr> warnings = None \<rparr>) (Inr ()))
               ''expired'' ready_state)))
   \<and> fst (tokenizePaymentDataRequest example_config
            (example_world (Inr \<lparr> result = True \<rparr>) (Inr (PaymentData ''abc''))
               (Inr \<lparr> warnings = None \<rparr>) (Inr ()))
            (snd (fst (initGooglePaymentInstance example_config
               (example_world (Inr \<lparr> result = True \<rparr>) (Inr (PaymentData ''abc''))
                  (Inr \<lparr> warnings = None \<rparr>) (Inr ()))
               ''expired'' ready_state)))
            example_transaction)
       = Inr ''nonce-abc''"
  by (simp add: initGooglePaymentInstance_def tokenizePaymentDataRequest_def io_defs flow_defs
                example_defs)

text \<open>
  C8, amended. A call of \<^verbatim>\<open>initGooglePaymentInstance\<close> in which client creation or
  instance creation rejects reports the rejection with the message
  \<^verbatim>\<open>Error initializing Google Pay.\<close>, returns \<^verbatim>\<open>{error: true}\<close> and leaves the
  module-level slot as it was before the call. A call in which both resolve stores the
  new instance in the slot and returns \<^verbatim>\<open>{error: false}\<close>. While the slot is unset
  (no initialization has succeeded yet) the adapter is unusable: \<^verbatim>\<open>gPay\<close> only reports
  and shows \<^verbatim>\<open>Unable to open Google Pay.\<close>
\<close>

theorem initGooglePaymentInstance_outcomes:
  "(braintree_client_create w client_token = Inl e
    \<longrightarrow> initGooglePaymentInstance cfg w client_token s =
          ((\<lparr> error = True \<rparr>, s),
           [ClientCreate client_token,
            ReportException e ''Error initializing Google Pay.'']))
   \<and> (braintree_client_create w client_token = Inr c
      \<and> braintree_googlePayment_create w
            \<lparr> client = c, googlePayVersion = 2, googleMerchantId = GPAY_MERCHANT_ID cfg \<rparr>
          = Inl e
    \<longrightarrow> initGooglePaymentInstance cfg w client_token s =
          ((\<lparr> error = True \<rparr>, s),
           [ClientCreate client_token,
            GooglePaymentCreate c 2 (GPAY_MERCHANT_ID cfg),
            ReportException e ''Error initializing Google Pay.'']))
   \<and> (braintree_client_create w client_token = Inr c
      \<and> braintree_googlePayment_create w
            \<lparr> client = c, googlePayVersion = 2, googleMerchantId = GPAY_MERCHANT_ID cfg \<rparr>
          = Inr g
    \<longrightarrow> initGooglePaymentInstance cfg w client_token s =
          ((\<lparr> error = False \<rparr>, s \<lparr> googlePaymentInstance := Some g \<rparr>),
           [ClientCreate client_token,
            GooglePaymentCreate c 2 (GPAY_MERCHANT_ID cfg)]))
   \<and> (googlePaymentInstance s = None
    \<longrightarrow> gPay cfg w s act ti =
          (Inr (),
           [ReportException TypeError ''Unable to open Google Pay.'',
            SetMessage (JSString ''Unable to open Google Pay.'') Variant_error None]))"
  by (simp add: initGooglePaymentInstance_def gPay_def tokenizePaymentDataRequest_def io_defs)

theorem initGooglePaymentInstance_outcomes_witness:
  "initGooglePaymentInstance example_config
     (example_world (Inr \<lparr> result = True \<rparr>) (Inr (PaymentData ''abc'')) (Inr \<lparr> warnings = None \<rparr>) (Inr ()))
     ''expired'' initial_state
   = ((\<lparr> error = True \<rparr>, initial_state),
      [ClientCreate ''expired'',
       ReportException (JSObject None) ''Error initializing Google Pay.''])
   \<and> initGooglePaymentInstance example_config
     (example_world (Inr \<lparr> result = True \<rparr>) (Inr (PaymentData ''abc'')) (Inr \<lparr> warnings = None \<rparr>) (Inr ()))
     ''no-google-pay'' initial_state
   = ((\<lparr> error = True \<rparr>, initial_state),
      [ClientCreate ''no-google-pay'',
       GooglePaymentCreate (BraintreeClient ''no-google-pay'') 2 (Some ''BCR2DN6T''),
       ReportException (JSObject None) ''Error initializing Google Pay.''])
   \<and> initGooglePaymentInstance example_config
     (example_world (Inr \<lparr> result = True \<rparr>) (Inr (PaymentData ''abc'')) (Inr \<lparr> warnings = None \<rparr>) (Inr ()))
     ''fresh'' initial_state
   = ((\<lparr> error = False \<rparr>, ready_state),
      [ClientCreate ''fresh'',
       GooglePaymentCreate (BraintreeClient ''fresh'') 2 (Some ''BCR2DN6T'')])
   \<and> gPay example_config
     (example_world (Inr \<lparr> result = True \<rparr>) (Inr (PaymentData ''abc'')) (Inr \<lparr> warnings = None \<rparr>) (Inr ()))
     initial_state one_time_payment example_transaction
   = (Inr (),
      [ReportException TypeError ''Unable to open Google Pay.'',
       SetMessage (JSString ''Unable to open Google Pay.'') Variant_error None])"
proof -
  let ?w = "example_world (Inr \<lparr> result = True \<rparr>) (Inr (PaymentData ''abc''))
              (Inr \<lparr> warnings = None \<rparr>) (Inr ())"
  have a: "braintree_client_create ?w ''expired'' = Inl (JSObject None)"
    by (simp add: example_world_def)
  have b: "braintree_client_create ?w ''no-google-pay'' = Inr (BraintreeClient ''no-google-pay'')
      \<and> braintree_googlePayment_create ?w
            \<lparr> client = BraintreeClient ''no-google-pay'', googlePayVersion = 2,
              googleMerchantId = GPAY_MERCHANT_ID example_config \<rparr>
          = Inl (JSObject None)"
    by (simp add: example_world_def)
  have c: "braintree_client_create ?w ''fresh'' = Inr (BraintreeClient ''fresh'')
      \<and> braintree_googlePayment_create ?w
            \<lparr> client = BraintreeClient ''fresh'', googlePayVersion = 2,
              googleMerchantId = GPAY_MERCHANT_ID example_config \<rparr>
          = Inr example_instance"
    by (simp add: example_world_def)
  have d: "googlePaymentInstance initial_state = None"
    by (simp add: initial_state_def)
  have m: "GPAY_MERCHANT_ID example_config = Some ''BCR2DN6T''"
    by (simp add: example_config_def)
  have r: "initial_state \<lparr> googlePaymentInstance := Some example_instance \<rparr> = ready_state"
    by (simp add: initial_state_def ready_state_def)
  from initGooglePaymentInstance_outcomes
         [of ?w "''expired''" "JSObject None" example_config initial_state
             "BraintreeClient ''expired''" example_instance one_time_payment example_transaction]
       initGooglePaymentInstance_outcomes
         [of ?w "''no-google-pay''" "JSObject None" example_config initial_state
             "BraintreeClient ''no-google-pay''" example_instance one_time_payment
             example_transaction]
       initGooglePaymentInstance_outcomes
         [of ?w "''fresh''" "JSObject None" example_config initial_state
             "BraintreeClient ''fresh''" example_instance one_time_payment example_transaction]
       a b c d
  show ?thesis by (simp add: m r)
qed

section \<open>The processing flag\<close>

text \<open>
  C10. \<^verbatim>\<open>setProcessing\<close> is called exactly when tokenization yields a nonce. In that
  case the trace of \<^verbatim>\<open>gPay\<close> is the tokenization, then \<^verbatim>\<open>setProcessing(true)\<close>, then
  the settlement handler (which sends one settlement call, whether or not the backend
  accepts it), then \<^verbatim>\<open>setProcessing(false)\<close>, and these are the only two calls of
  \<^verbatim>\<open>setProcessing\<close>. When tokenization rejects, for whatever reason, \<^verbatim>\<open>setProcessing\<close>
  is never called.
\<close>

theorem setProcessing_brackets_settlement:
  "(fst (tokenizePaymentDataRequest cfg w s ti) = Inr n
    \<longrightarrow> snd (gPay cfg w s act ti) =
          snd (tokenizePaymentDataRequest cfg w s ti)
          @ [SetProcessing True]
          @ snd (if act = one_time_payment then makeOneTimePayment cfg w ti n
                 else addRecurringPayment cfg w n)
          @ [SetProcessing False]
        \<and> length (filter is_settlement
                    (snd (if act = one_time_payment then makeOneTimePayment cfg w ti n
                          else addRecurringPayment cfg w n))) = 1
        \<and> filter is_setProcessing (snd (gPay cfg w s act ti))
            = [SetProcessing True, SetProcessing False])
   \<and> (fst (tokenizePaymentDataRequest cfg w s ti) = Inl e
    \<longrightarrow> filter is_setProcessing (snd (gPay cfg w s act ti)) = [])"
proof (intro conjI impI)
  assume tok: "fst (tokenizePaymentDataRequest cfg w s ti) = Inr n"
  let ?handler = "snd (if act = one_time_payment then makeOneTimePayment cfg w ti n
                       else addRecurringPayment cfg w n)"
  show g: "snd (gPay cfg w s act ti) =
             snd (tokenizePaymentDataRequest cfg w s ti)
             @ [SetProcessing True] @ ?handler @ [SetProcessing False]"
    using gPay_tokenized [OF tok, of act] by (simp add: settle_def)
  have h: "length (filter is_settlement ?handler) = 1 \<and> filter is_setProcessing ?handler = []"
    by (auto simp: makeOneTimePayment_def addRecurringPayment_def io_defs split: sum.splits)
  from h show "length (filter is_settlement ?handler) = 1" by simp
  show "filter is_setProcessing (snd (gPay cfg w s act ti))
           = [SetProcessing True, SetProcessing False]"
    using tokenize_filters(2) [of cfg w s ti] h by (simp add: g del: append_assoc)
next
  assume tok: "fst (tokenizePaymentDataRequest cfg w s ti) = Inl e"
  show "filter is_setProcessing (snd (gPay cfg w s act ti)) = []"
    using tokenize_filters(2) [of cfg w s ti]
    by (simp add: gPay_not_tokenized [OF tok] split: sum.splits)
qed

theorem setProcessing_brackets_settlement_witness:
  "filter (\<lambda>ev. is_setProcessing ev \<or> is_settlement ev)
     (snd (gPay example_config
             (example_world (Inr \<lparr> result = True \<rparr>) (Inr (PaymentData ''abc'')) (Inl (JSObject None)) (Inr ()))
             ready_state one_time_payment example_transaction))
     = [SetProcessing True,
        MakePayment \<lparr> pr_nonce = ''nonce-abc'', usd = Some ''10.00'' \<rparr>,
        SetProcessing False]
   \<and> filter is_setProcessing
     (snd (gPay example_config
             (example_world (Inr \<lparr> result = True \<rparr>) (Inl (JSObject (Some ''CANCELED'')))
                (Inl (JSObject None)) (Inr ()))
             ready_state one_time_payment example_transaction))
     = []"
proof -
  let ?bad = "example_world (Inr \<lparr> result = True \<rparr>) (Inr (PaymentData ''abc'')) (Inl (JSObject None)) (Inr ())"
  let ?canceled = "example_world (Inr \<lparr> result = True \<rparr>)
                    (Inl (JSObject (Some ''CANCELED''))) (Inl (JSObject None)) (Inr ())"
  have t: "tokenizePaymentDataRequest example_config ?bad ready_state example_transaction
             = (Inr ''nonce-abc'',
                [CreatePaymentDataRequest (requestOverrides example_config example_transaction),
                 NewPaymentsClient (Some ''PRODUCTION'')
                   \<lparr> merchantId = ''BCR2DN6T'', merchantName = ''Linode'' \<rparr>,
                 IsReadyToPay \<lparr> apiVersion = 2, apiVersionMinor = 0,
                                rq_allowedPaymentMethods = [''CARD''] \<rparr>,
                 LoadPaymentData \<lparr> allowedPaymentMethods = [''CARD''] \<rparr>,
                 ParseResponse (PaymentData ''abc'')])"
    by (simp add: tokenizePaymentDataRequest_def io_defs flow_defs example_defs)
  have f: "fst (tokenizePaymentDataRequest example_config ?bad ready_state example_transaction)
             = Inr ''nonce-abc''"
    by (simp add: t)
  have f': "fst (tokenizePaymentDataRequest example_config ?canceled ready_state
                   example_transaction)
             = Inl (JSObject (Some ''CANCELED''))"
    by (simp add: tokenizePaymentDataRequest_def io_defs flow_defs example_defs)
  have h: "snd (makeOneTimePayment example_config ?bad example_transaction ''nonce-abc'')
             = [MakePayment \<lparr> pr_nonce = ''nonce-abc'', usd = Some ''10.00'' \<rparr>,
                ReportException (JSObject None) ''Unable to complete Google Pay payment'',
                SetMessage (JSString ''Unable to complete Google Pay payment'')
                           Variant_error None]"
    by (simp add: makeOneTimePayment_def io_defs example_defs)
  from setProcessing_brackets_settlement
         [of example_config ?bad ready_state example_transaction "''nonce-abc''"
             one_time_payment "JSObject (Some ''CANCELED'')"]
       setProcessing_brackets_settlement
         [of example_config ?canceled ready_state example_transaction "''nonce-abc''"
             one_time_payment "JSObject (Some ''CANCELED'')"]
       f f'
  show ?thesis by (auto simp: t h)
qed

end
